theory Spec2Isabelle
  imports Main "HOL-Library.Multiset"
begin

section \<open>Python values and exceptions\<close>

text \<open>
  The values that flow through the Mailgun backend: the deserialized JSON response, the
  values of the form-field dictionary \<open>self.data\<close>, metadata values and the entries of
  \<open>esp_extra\<close>. A Python \<open>dict\<close> with string keys is the list of its items in
  iteration order; \<open>PObj\<close> is an opaque object that is none of the other kinds.
  Numbers are integers (floating point is not modelled).
\<close>

datatype pyval =
    PNone
  | PBool bool
  | PInt int
  | PStr string
  | PList "pyval list"
  | PDict "(string \<times> pyval) list"
  | PObj nat

text \<open>
  Exceptions are values. The first group are Python's own; the second group are the
  classes of \<open>anymail.exceptions\<close>, carrying their message where the source builds one;
  \<open>AnymailUnsupportedFeature\<close> carries the name of the feature.
\<close>

datatype error =
    KeyError
  | TypeError
  | ValueError
  | AttributeError
  | AssertionError
  | AnymailRequestsAPIError string
  | AnymailError string
  | AnymailSerializationError
  | AnymailUnsupportedFeature string

text \<open>\<open>d.update(items)\<close>: the items are stored in order, a later one replacing an earlier one.\<close>

definition dict_update :: "(string \<rightharpoonup> pyval) \<Rightarrow> (string \<times> pyval) list \<Rightarrow> (string \<rightharpoonup> pyval)" where
  "dict_update d items = fold (\<lambda>(k, v) m. m(k \<mapsto> v)) items d"

text \<open>The dictionary that a list of items denotes.\<close>

definition dict_of :: "(string \<times> pyval) list \<Rightarrow> (string \<rightharpoonup> pyval)" where
  "dict_of items = dict_update Map.empty items"

text \<open>
  \<open>obj[key]\<close> with a string key: \<open>KeyError\<close> on a dict without the key, \<open>TypeError\<close> on
  every value that is not a dict (a list or a string wants integer indices, the others
  are not subscriptable).
\<close>

fun getitem :: "pyval \<Rightarrow> string \<Rightarrow> error + pyval" where
  "getitem (PDict items) key =
     (case dict_of items key of None \<Rightarrow> Inl KeyError | Some v \<Rightarrow> Inr v)"
| "getitem _ key = Inl TypeError"

text \<open>\<open>s.startswith(prefix)\<close> on a string.\<close>

definition startswith :: "string \<Rightarrow> string \<Rightarrow> bool" where
  "startswith s pre = (take (length pre) s = pre)"

text \<open>
  \<open>s.split(sep)\<close> for a one-character separator: the pieces between the separators, so
  that a string with \<open>n\<close> separators gives \<open>n + 1\<close> pieces and the empty string gives one
  empty piece.
\<close>

fun split :: "string \<Rightarrow> char \<Rightarrow> string list" where
  "split [] sep = [[]]"
| "split (c # cs) sep =
     (if c = sep then [] # split cs sep
      else (case split cs sep of
              [] \<Rightarrow> [[c]]
            | w # ws \<Rightarrow> (c # w) # ws))"

text \<open>\<open>_, domain = parts\<close>: unpacking into two names raises \<open>ValueError\<close> unless there are exactly two parts.\<close>

fun unpack2 :: "'a list \<Rightarrow> error + ('a \<times> 'a)" where
  "unpack2 [a, b] = Inr (a, b)"
| "unpack2 _ = Inl ValueError"

text \<open>
  \<open>"%s" % v\<close>: a string is inserted as it is; for any other value Python inserts
  \<open>str(v)\<close>, a builtin that is taken as the parameter \<open>py_str\<close>.
\<close>

fun percent_s :: "(pyval \<Rightarrow> string) \<Rightarrow> pyval \<Rightarrow> string" where
  "percent_s py_str (PStr s) = s"
| "percent_s py_str v = py_str v"

text \<open>\<open>sep.join(parts)\<close>.\<close>

fun join :: "string \<Rightarrow> string list \<Rightarrow> string" where
  "join sep [] = []"
| "join sep [x] = x"
| "join sep (x # y # ys) = x @ sep @ join sep (y # ys)"

section \<open>Data model\<close>

text \<open>
  Modelled from the spec: the address objects of the message model, a class of
  \<open>anymail.utils\<close>. \<open>str(email)\<close> is the field \<open>address\<close> (the formatted address,
  \<open>Display Name <local@domain>\<close> or the bare \<open>local@domain\<close>), and \<open>email.email\<close> is the
  plain email string.
\<close>

record ParsedEmail =
  address :: string
  email :: string

text \<open>
  Modelled from the spec: the per-recipient status, a class of \<open>anymail.message\<close>, with
  its two constructor arguments.
\<close>

record AnymailRecipientStatus =
  message_id :: pyval
  status :: string

text \<open>An attachment of the message model, with the attributes that \<open>add_attachment\<close> reads.\<close>

record Attachment =
  name :: string
  content :: string
  mimetype :: string
  inline :: bool

text \<open>
  The state of a \<open>MailgunPayload\<close>: the attributes set in \<open>__init__\<close> and
  \<open>init_payload\<close>.
\<close>

record MailgunPayload =
  sender_domain :: pyval
  all_recipients :: "ParsedEmail list"
  data :: "string \<rightharpoonup> pyval"
  files :: "(string \<times> (string \<times> string \<times> string)) list"

section \<open>MailgunPayload\<close>

text \<open>\<open>__init__\<close> followed by \<open>init_payload\<close>: no sender domain, no recipients, no fields, no files.\<close>

definition init_payload :: MailgunPayload where
  "init_payload =
     \<lparr>sender_domain = PNone, all_recipients = [], data = Map.empty, files = []\<rparr>"

definition unknown_sender_domain :: string where
  "unknown_sender_domain =
     ''Cannot call Mailgun unknown sender domain. '' @
     ''Either provide valid `from_email`, '' @
     ''or set `message.esp_extra={'sender_domain': 'example.com'}`''"

definition get_api_endpoint :: "(pyval \<Rightarrow> string) \<Rightarrow> MailgunPayload \<Rightarrow> error + string" where
  "get_api_endpoint py_str p =
     (if sender_domain p = PNone
      then Inl (AnymailError unknown_sender_domain)
      else Inr (percent_s py_str (sender_domain p) @ ''/messages''))"

definition set_from_email :: "MailgunPayload \<Rightarrow> ParsedEmail \<Rightarrow> MailgunPayload" where
  "set_from_email p e =
     (let p1 = p\<lparr>data := (data p)(''from'' \<mapsto> PStr (address e))\<rparr>
      in if sender_domain p1 = PNone
         then (case unpack2 (split (email e) (CHR ''@'')) of
                 Inr (_, domain) \<Rightarrow> p1\<lparr>sender_domain := PStr domain\<rparr>
               | Inl err \<Rightarrow> p1)
         else p1)"

definition set_recipients ::
  "MailgunPayload \<Rightarrow> string \<Rightarrow> ParsedEmail list \<Rightarrow> error + MailgunPayload" where
  "set_recipients p recipient_type emails =
     (if recipient_type \<notin> set [''to'', ''cc'', ''bcc''] then Inl AssertionError
      else if emails \<noteq> []
      then Inr (p\<lparr>data := (data p)(recipient_type \<mapsto> PList (map (\<lambda>e. PStr (address e)) emails)),
                 all_recipients := all_recipients p @ emails\<rparr>)
      else Inr p)"

text \<open>
  \<open>set_html_body\<close>. The method \<open>unsupported_feature\<close> belongs to the base payload class
  in \<open>anymail.backends.base\<close> and is a parameter: given the feature it either raises
  (\<open>AnymailUnsupportedFeature\<close>, unless unsupported features are set to be ignored) or
  returns, and it changes nothing in the payload. The result is the exception that
  escapes, if any, together with the state of the payload after the call: an exception
  from \<open>unsupported_feature\<close> leaves before \<open>self.data["html"]\<close> is assigned.
\<close>

definition set_html_body ::
  "(string \<Rightarrow> error option) \<Rightarrow> MailgunPayload \<Rightarrow> pyval \<Rightarrow> error option \<times> MailgunPayload" where
  "set_html_body unsupported_feature p body =
     (case (if data p ''html'' \<noteq> None
            then unsupported_feature ''multiple html parts''
            else None) of
        Some err \<Rightarrow> (Some err, p)
      | None \<Rightarrow> (None, p\<lparr>data := (data p)(''html'' \<mapsto> body)\<rparr>))"

text \<open>
  Modelled from the spec: \<open>serialize_json\<close>, a method of the base payload class in
  \<open>anymail.backends.base\<close>. It JSON-serializes the value and fails with the classified
  serialization error if the value is not serializable. The JSON encoder itself is the
  parameter \<open>dumps\<close>, which gives \<open>None\<close> for such a value.
\<close>

definition serialize_json :: "(pyval \<Rightarrow> string option) \<Rightarrow> pyval \<Rightarrow> error + string" where
  "serialize_json dumps v =
     (case dumps v of None \<Rightarrow> Inl AnymailSerializationError | Some j \<Rightarrow> Inr j)"

fun set_metadata ::
  "(pyval \<Rightarrow> string option) \<Rightarrow> MailgunPayload \<Rightarrow> (string \<times> pyval) list \<Rightarrow> error + MailgunPayload" where
  "set_metadata dumps p [] = Inr p"
| "set_metadata dumps p ((key, v) # rest) =
     (case serialize_json dumps v of
        Inl err \<Rightarrow> Inl err
      | Inr json \<Rightarrow>
          set_metadata dumps
            (p\<lparr>data := (data p)(''v:'' @ key \<mapsto>
                  (if startswith json [CHR 0x22] then v else PStr json))\<rparr>)
            rest)"

definition set_esp_extra :: "MailgunPayload \<Rightarrow> (string \<times> pyval) list \<Rightarrow> MailgunPayload" where
  "set_esp_extra p extra =
     (let d = dict_update (data p) extra
      in p\<lparr>sender_domain := (case d ''sender_domain'' of
                                Some v \<Rightarrow> v
                              | None \<Rightarrow> sender_domain p),
            data := d(''sender_domain'' := None)\<rparr>)"

text \<open>
  The remaining setters. Each stores its argument under a fixed field name, or under a
  field name with the prefix \<open>h:\<close>. A \<open>send_at\<close> value is either a \<open>datetime\<close>, formatted
  by \<open>rfc2822date\<close> (a function of \<open>anymail.utils\<close>, taken as a parameter), or any other
  value, stored as it is.
\<close>

definition set_subject :: "MailgunPayload \<Rightarrow> pyval \<Rightarrow> MailgunPayload" where
  "set_subject p subject = p\<lparr>data := (data p)(''subject'' \<mapsto> subject)\<rparr>"

definition set_reply_to :: "MailgunPayload \<Rightarrow> ParsedEmail list \<Rightarrow> MailgunPayload" where
  "set_reply_to p emails =
     (if emails \<noteq> []
      then p\<lparr>data := (data p)(''h:Reply-To'' \<mapsto> PStr (join '', '' (map address emails)))\<rparr>
      else p)"

definition set_extra_headers :: "MailgunPayload \<Rightarrow> (string \<times> pyval) list \<Rightarrow> MailgunPayload" where
  "set_extra_headers p headers =
     p\<lparr>data := fold (\<lambda>(key, v) m. m(''h:'' @ key \<mapsto> v)) headers (data p)\<rparr>"

definition set_text_body :: "MailgunPayload \<Rightarrow> pyval \<Rightarrow> MailgunPayload" where
  "set_text_body p body = p\<lparr>data := (data p)(''text'' \<mapsto> body)\<rparr>"

definition add_attachment :: "MailgunPayload \<Rightarrow> Attachment \<Rightarrow> MailgunPayload" where
  "add_attachment p attachment =
     (let field = (if inline attachment then ''inline'' else ''attachment'')
      in p\<lparr>files := files p @
             [(field, (name attachment, content attachment, mimetype attachment))]\<rparr>)"

typedecl datetime

definition set_send_at ::
  "(datetime \<Rightarrow> string) \<Rightarrow> MailgunPayload \<Rightarrow> datetime + pyval \<Rightarrow> MailgunPayload" where
  "set_send_at rfc2822date p send_at =
     p\<lparr>data := (data p)(''o:deliverytime'' \<mapsto>
           (case send_at of Inl dt \<Rightarrow> PStr (rfc2822date dt) | Inr v \<Rightarrow> v))\<rparr>"

definition set_tags :: "MailgunPayload \<Rightarrow> pyval \<Rightarrow> MailgunPayload" where
  "set_tags p tags = p\<lparr>data := (data p)(''o:tag'' \<mapsto> tags)\<rparr>"

definition set_track_clicks :: "MailgunPayload \<Rightarrow> bool \<Rightarrow> MailgunPayload" where
  "set_track_clicks p track_clicks =
     p\<lparr>data := (data p)(''o:tracking-clicks'' \<mapsto> PStr (if track_clicks then ''yes'' else ''no''))\<rparr>"

definition set_track_opens :: "MailgunPayload \<Rightarrow> bool \<Rightarrow> MailgunPayload" where
  "set_track_opens p track_opens =
     p\<lparr>data := (data p)(''o:tracking-opens'' \<mapsto> PStr (if track_opens then ''yes'' else ''no''))\<rparr>"

text \<open>
  A run of \<open>set_recipients\<close> calls, one per pair of a recipient type and an address list,
  stopping at the first call that raises.
\<close>

fun set_recipients_calls ::
  "MailgunPayload \<Rightarrow> (string \<times> ParsedEmail list) list \<Rightarrow> error + MailgunPayload" where
  "set_recipients_calls p [] = Inr p"
| "set_recipients_calls p ((recipient_type, emails) # calls) =
     (case set_recipients p recipient_type emails of
        Inl err \<Rightarrow> Inl err
      | Inr p' \<Rightarrow> set_recipients_calls p' calls)"

text \<open>
  The payloads that the setters can build, starting from \<open>init_payload\<close>.
\<close>

inductive built :: "MailgunPayload \<Rightarrow> bool" where
  built_init: "built init_payload"
| built_from_email: "built p \<Longrightarrow> built (set_from_email p e)"
| built_recipients: "built p \<Longrightarrow> set_recipients p recipient_type emails = Inr p' \<Longrightarrow> built p'"
| built_subject: "built p \<Longrightarrow> built (set_subject p subject)"
| built_reply_to: "built p \<Longrightarrow> built (set_reply_to p emails)"
| built_extra_headers: "built p \<Longrightarrow> built (set_extra_headers p headers)"
| built_text_body: "built p \<Longrightarrow> built (set_text_body p body)"
| built_html_body: "built p \<Longrightarrow> built (snd (set_html_body unsupported_feature p body))"
| built_attachment: "built p \<Longrightarrow> built (add_attachment p attachment)"
| built_metadata: "built p \<Longrightarrow> set_metadata dumps p metadata = Inr p' \<Longrightarrow> built p'"
| built_send_at: "built p \<Longrightarrow> built (set_send_at rfc2822date p send_at)"
| built_tags: "built p \<Longrightarrow> built (set_tags p tags)"
| built_track_clicks: "built p \<Longrightarrow> built (set_track_clicks p track_clicks)"
| built_track_opens: "built p \<Longrightarrow> built (set_track_opens p track_opens)"
| built_esp_extra: "built p \<Longrightarrow> built (set_esp_extra p extra)"

section \<open>MailgunBackend\<close>

text \<open>
  \<open>parse_recipient_status\<close>. The response deserializer \<open>deserialize_json_response\<close>
  belongs to the requests base class and is a parameter: it gives the parsed JSON value
  or the error it raises.
\<close>

definition parse_recipient_status ::
  "('r \<Rightarrow> error + pyval) \<Rightarrow> 'r \<Rightarrow> MailgunPayload \<Rightarrow>
     error + (string \<rightharpoonup> AnymailRecipientStatus)" where
  "parse_recipient_status deserialize_json_response response payload =
     (case deserialize_json_response response of
        Inl err \<Rightarrow> Inl err
      | Inr parsed_response \<Rightarrow>
          (case (case getitem parsed_response ''id'' of
                   Inl err \<Rightarrow> Inl err
                 | Inr mid \<Rightarrow>
                     (case getitem parsed_response ''message'' of
                        Inl err \<Rightarrow> Inl err
                      | Inr mailgun_message \<Rightarrow> Inr (mid, mailgun_message))) of
             Inl err \<Rightarrow>
               (if err = KeyError \<or> err = TypeError
                then Inl (AnymailRequestsAPIError ''Invalid Mailgun API response format'')
                else Inl err)
           | Inr (mid, mailgun_message) \<Rightarrow>
               (case mailgun_message of
                  PStr s \<Rightarrow>
                    (if \<not> startswith s ''Queued''
                     then Inl (AnymailRequestsAPIError
                            (''Unrecognized Mailgun API message '' @ [CHR 0x27] @ s @ [CHR 0x27]))
                     else Inr (fold (\<lambda>recipient m.
                                  m(email recipient \<mapsto> \<lparr>message_id = mid, status = ''queued''\<rparr>))
                               (all_recipients payload) Map.empty))
                | _ \<Rightarrow> Inl AttributeError)))"

section \<open>A JSON encoder for the parameter of \<open>serialize_json\<close>\<close>

text \<open>
  An instance of the encoder parameter, in the output format of Python's \<open>json.dumps\<close>
  for \<open>None\<close>, booleans, integers, strings, lists and dicts with string keys. In a string
  it escapes the double quote and the backslash and copies every other character. An
  opaque object, alone or nested, is not serializable.
\<close>

fun decimal :: "nat \<Rightarrow> string" where
  "decimal n =
     (if n < 10 then [''0123456789'' ! n]
      else decimal (n div 10) @ [''0123456789'' ! (n mod 10)])"

declare decimal.simps [simp del]

fun escape :: "string \<Rightarrow> string" where
  "escape [] = []"
| "escape (c # cs) =
     (if c = CHR 0x22 \<or> c = CHR 0x5C then CHR 0x5C # c # escape cs else c # escape cs)"

definition quoted :: "string \<Rightarrow> string" where
  "quoted s = CHR 0x22 # escape s @ [CHR 0x22]"

fun json_encode :: "pyval \<Rightarrow> string option" where
  "json_encode PNone = Some ''null''"
| "json_encode (PBool b) = Some (if b then ''true'' else ''false'')"
| "json_encode (PInt i) = Some (if i < 0 then CHR ''-'' # decimal (nat (- i)) else decimal (nat i))"
| "json_encode (PStr s) = Some (quoted s)"
| "json_encode (PList vs) =
     (case those (map json_encode vs) of
        None \<Rightarrow> None
      | Some js \<Rightarrow> Some (''['' @ join '', '' js @ '']''))"
| "json_encode (PDict items) =
     (case those (map (\<lambda>kv. map_option (\<lambda>j. quoted (fst kv) @ '': '' @ j) (json_encode (snd kv))) items) of
        None \<Rightarrow> None
      | Some js \<Rightarrow> Some (''{'' @ join '', '' js @ ''}''))"
| "json_encode (PObj n) = None"

section \<open>Facts about the helpers\<close>

lemma dict_update_append: "dict_update d items = d ++ map_of (rev items)"
  unfolding dict_update_def
  by (induction items arbitrary: d)
     (auto simp: map_add_upd_left fun_eq_iff map_add_def split: option.splits)

lemma dict_update_dict_of: "dict_update d items = d ++ dict_of items"
  by (simp add: dict_of_def dict_update_append)

lemma dom_dict_of: "dom (dict_of items) = fst ` set items"
  by (simp add: dict_of_def dict_update_append dom_map_of_conv_image_fst)

lemma status_fold:
  "fold (\<lambda>recipient m. m(email recipient \<mapsto> st)) rs m0 k =
     (if k \<in> email ` set rs then Some st else m0 k)"
  by (induction rs arbitrary: m0) auto

section \<open>Parsing the response\<close>

text \<open>
  C1. When the deserialized response is an object whose \<open>id\<close> is a string and whose
  \<open>message\<close> is a string that starts with \<open>Queued\<close>, \<open>parse_recipient_status\<close> returns a
  mapping whose keys are exactly the plain email strings of the addresses in
  \<open>all_recipients\<close>, and every address's entry has the response's \<open>id\<close> as message id and the
  status \<open>queued\<close>.
\<close>

theorem parse_recipient_status_queued:
  assumes "deserialize_json_response response = Inr (PDict items)"
    and "dict_of items ''id'' = Some (PStr mid)"
    and "dict_of items ''message'' = Some (PStr msg)"
    and "startswith msg ''Queued''"
  shows "\<exists>result.
           parse_recipient_status deserialize_json_response response payload = Inr result
         \<and> dom result = email ` set (all_recipients payload)
         \<and> (\<forall>recipient \<in> set (all_recipients payload).
               result (email recipient) = Some \<lparr>message_id = PStr mid, status = ''queued''\<rparr>)"
  using assms
  by (auto simp: parse_recipient_status_def status_fold dom_def)

theorem parse_recipient_status_queued_witness:
  "dict_of [(''id'', PStr ''MSG123''), (''message'', PStr ''Queued. Thank you.'')] ''id''
     = Some (PStr ''MSG123'')
   \<and> dict_of [(''id'', PStr ''MSG123''), (''message'', PStr ''Queued. Thank you.'')] ''message''
     = Some (PStr ''Queued. Thank you.'')
   \<and> startswith ''Queued. Thank you.'' ''Queued''
   \<and> (\<exists>result.
        parse_recipient_status (\<lambda>r. Inr r)
          (PDict [(''id'', PStr ''MSG123''), (''message'', PStr ''Queued. Thank you.'')])
          (init_payload\<lparr>all_recipients :=
             [\<lparr>address = ''a@x.com'', email = ''a@x.com''\<rparr>,
              \<lparr>address = ''B <b@x.com>'', email = ''b@x.com''\<rparr>]\<rparr>) = Inr result
      \<and> dom result = {''a@x.com'', ''b@x.com''}
      \<and> result ''a@x.com'' = Some \<lparr>message_id = PStr ''MSG123'', status = ''queued''\<rparr>
      \<and> result ''b@x.com'' = Some \<lparr>message_id = PStr ''MSG123'', status = ''queued''\<rparr>)"
proof -
  let ?items = "[(''id'', PStr ''MSG123''), (''message'', PStr ''Queued. Thank you.'')]"
  have h1: "dict_of ?items ''id'' = Some (PStr ''MSG123'')"
    by (simp add: dict_of_def dict_update_def)
  have h2: "dict_of ?items ''message'' = Some (PStr ''Queued. Thank you.'')"
    by (simp add: dict_of_def dict_update_def)
  have h3: "startswith ''Queued. Thank you.'' ''Queued''"
    by (simp add: startswith_def)
  from parse_recipient_status_queued [where deserialize_json_response = "\<lambda>r. Inr r"
      and response = "PDict ?items" and items = ?items and mid = "''MSG123''"
      and msg = "''Queued. Thank you.''"
      and payload = "init_payload\<lparr>all_recipients :=
             [\<lparr>address = ''a@x.com'', email = ''a@x.com''\<rparr>,
              \<lparr>address = ''B <b@x.com>'', email = ''b@x.com''\<rparr>]\<rparr>"]
  show ?thesis using h1 h2 h3 by (simp add: insert_commute)
qed

text \<open>
  C2. When the deserialized response is an object that has an \<open>id\<close> key and whose
  \<open>message\<close> is a string that does not start with \<open>Queued\<close>, \<open>parse_recipient_status\<close>
  raises the API error for an unrecognized Mailgun message, and so returns no status map.
\<close>

theorem parse_recipient_status_unrecognized:
  assumes "deserialize_json_response response = Inr (PDict items)"
    and "dict_of items ''id'' = Some v"
    and "dict_of items ''message'' = Some (PStr msg)"
    and "\<not> startswith msg ''Queued''"
  shows "parse_recipient_status deserialize_json_response response payload =
           Inl (AnymailRequestsAPIError
                  (''Unrecognized Mailgun API message '' @ [CHR 0x27] @ msg @ [CHR 0x27]))"
  using assms by (simp add: parse_recipient_status_def)

theorem parse_recipient_status_unrecognized_witness:
  "dict_of [(''id'', PStr ''MSG123''), (''message'', PStr ''Rejected'')] ''id''
     = Some (PStr ''MSG123'')
   \<and> dict_of [(''id'', PStr ''MSG123''), (''message'', PStr ''Rejected'')] ''message''
     = Some (PStr ''Rejected'')
   \<and> \<not> startswith ''Rejected'' ''Queued''
   \<and> parse_recipient_status (\<lambda>r. Inr r)
         (PDict [(''id'', PStr ''MSG123''), (''message'', PStr ''Rejected'')])
         (init_payload\<lparr>all_recipients := [\<lparr>address = ''a@x.com'', email = ''a@x.com''\<rparr>]\<rparr>)
       = Inl (AnymailRequestsAPIError
               (''Unrecognized Mailgun API message '' @ [CHR 0x27] @ ''Rejected'' @ [CHR 0x27]))"
proof -
  let ?items = "[(''id'', PStr ''MSG123''), (''message'', PStr ''Rejected'')]"
  have h1: "dict_of ?items ''id'' = Some (PStr ''MSG123'')"
    by (simp add: dict_of_def dict_update_def)
  have h2: "dict_of ?items ''message'' = Some (PStr ''Rejected'')"
    by (simp add: dict_of_def dict_update_def)
  have h3: "\<not> startswith ''Rejected'' ''Queued''"
    by (simp add: startswith_def)
  have h0: "(\<lambda>r. Inr r :: error + pyval) (PDict ?items) = Inr (PDict ?items)"
    by simp
  from parse_recipient_status_unrecognized [where deserialize_json_response = "\<lambda>r. Inr r"
      and response = "PDict ?items", OF h0 h1 h2 h3]
  show ?thesis using h1 h2 h3 by simp
qed

text \<open>
  C4, as the code has it. When the deserialized response is not an object, or is an
  object without the key \<open>id\<close> or without the key \<open>message\<close>,
  \<open>parse_recipient_status\<close> raises the API error for an invalid response format.
\<close>

theorem parse_recipient_status_invalid_format:
  assumes "deserialize_json_response response = Inr parsed"
    and "case parsed of
           PDict items \<Rightarrow> dict_of items ''id'' = None \<or> dict_of items ''message'' = None
         | _ \<Rightarrow> True"
  shows "parse_recipient_status deserialize_json_response response payload =
           Inl (AnymailRequestsAPIError ''Invalid Mailgun API response format'')"
  using assms
  by (cases parsed) (auto simp: parse_recipient_status_def split: option.splits)

theorem parse_recipient_status_invalid_format_witness:
  "dict_of [(''message'', PStr ''Queued. Thank you.'')] ''id'' = None
   \<and> parse_recipient_status (\<lambda>r. Inr r)
         (PDict [(''message'', PStr ''Queued. Thank you.'')]) init_payload
       = Inl (AnymailRequestsAPIError ''Invalid Mailgun API response format'')
   \<and> parse_recipient_status (\<lambda>r. Inr r)
         (PList [PStr ''id'', PStr ''message'']) init_payload
       = Inl (AnymailRequestsAPIError ''Invalid Mailgun API response format'')"
proof -
  have h1: "dict_of [(''message'', PStr ''Queued. Thank you.'')] ''id'' = None"
    by (simp add: dict_of_def dict_update_def)
  have a: "parse_recipient_status (\<lambda>r. Inr r)
         (PDict [(''message'', PStr ''Queued. Thank you.'')]) init_payload
       = Inl (AnymailRequestsAPIError ''Invalid Mailgun API response format'')"
    using h1
    by (intro parse_recipient_status_invalid_format
          [where parsed = "PDict [(''message'', PStr ''Queued. Thank you.'')]"]) simp_all
  have b: "parse_recipient_status (\<lambda>r. Inr r)
         (PList [PStr ''id'', PStr ''message'']) init_payload
       = Inl (AnymailRequestsAPIError ''Invalid Mailgun API response format'')"
    by (intro parse_recipient_status_invalid_format
          [where parsed = "PList [PStr ''id'', PStr ''message'']"]) simp_all
  from h1 a b show ?thesis by simp
qed

text \<open>
  C4, as the claim states it, fails where a key is present with a value that is not a
  string. With \<open>message\<close> an integer the call \<open>startswith\<close> raises \<open>AttributeError\<close>, which
  is not caught; with \<open>id\<close> an integer and a queued message no error is raised at all.
\<close>

theorem parse_recipient_status_value_types_counterexample:
  "parse_recipient_status (\<lambda>r. Inr r)
     (PDict [(''id'', PStr ''MSG123''), (''message'', PInt 42)]) init_payload
     = Inl AttributeError
   \<and> parse_recipient_status (\<lambda>r. Inr r)
     (PDict [(''id'', PInt 42), (''message'', PStr ''Queued. Thank you.'')]) init_payload
     \<noteq> Inl (AnymailRequestsAPIError ''Invalid Mailgun API response format'')"
  by (simp add: parse_recipient_status_def dict_of_def dict_update_def startswith_def
        init_payload_def)

section \<open>The html body\<close>

text \<open>
  C3, as the code has it. When an html body is already stored, a further call of
  \<open>set_html_body\<close> calls \<open>unsupported_feature\<close> with \<open>multiple html parts\<close>. If that
  raises, the exception escapes and the payload is as before, so the \<open>html\<close> field keeps
  the earlier value. If that returns, the setter does not raise and stores its own
  argument under \<open>html\<close>, replacing the earlier value and changing nothing else.
\<close>

theorem set_html_body_second_call:
  assumes "data p ''html'' = Some first"
  shows "(unsupported_feature ''multiple html parts'' = Some err \<longrightarrow>
            set_html_body unsupported_feature p second = (Some err, p)
          \<and> data (snd (set_html_body unsupported_feature p second)) ''html'' = Some first)
       \<and> (unsupported_feature ''multiple html parts'' = None \<longrightarrow>
            set_html_body unsupported_feature p second
              = (None, p\<lparr>data := (data p)(''html'' \<mapsto> second)\<rparr>))"
  using assms by (simp add: set_html_body_def)

theorem set_html_body_second_call_witness:
  "data (init_payload\<lparr>data := [''html'' \<mapsto> PStr ''<p>one</p>'']\<rparr>) ''html''
     = Some (PStr ''<p>one</p>'')
   \<and> set_html_body (\<lambda>feature. Some (AnymailUnsupportedFeature feature))
         (init_payload\<lparr>data := [''html'' \<mapsto> PStr ''<p>one</p>'']\<rparr>) (PStr ''<p>two</p>'')
       = (Some (AnymailUnsupportedFeature ''multiple html parts''),
          init_payload\<lparr>data := [''html'' \<mapsto> PStr ''<p>one</p>'']\<rparr>)
   \<and> set_html_body (\<lambda>feature. None)
         (init_payload\<lparr>data := [''html'' \<mapsto> PStr ''<p>one</p>'']\<rparr>) (PStr ''<p>two</p>'')
       = (None, init_payload\<lparr>data := [''html'' \<mapsto> PStr ''<p>two</p>'']\<rparr>)"
proof -
  let ?p = "init_payload\<lparr>data := [''html'' \<mapsto> PStr ''<p>one</p>'']\<rparr>"
  have h: "data ?p ''html'' = Some (PStr ''<p>one</p>'')"
    by simp
  from set_html_body_second_call [OF h,
         of "\<lambda>feature. Some (AnymailUnsupportedFeature feature)"
            "AnymailUnsupportedFeature ''multiple html parts''" "PStr ''<p>two</p>''"]
  have 1: "set_html_body (\<lambda>feature. Some (AnymailUnsupportedFeature feature)) ?p
             (PStr ''<p>two</p>'')
           = (Some (AnymailUnsupportedFeature ''multiple html parts''), ?p)"
    by simp
  from set_html_body_second_call [OF h, of "\<lambda>feature. None" _ "PStr ''<p>two</p>''"]
  have 2: "set_html_body (\<lambda>feature. None) ?p (PStr ''<p>two</p>'')
           = (None, init_payload\<lparr>data := [''html'' \<mapsto> PStr ''<p>two</p>'']\<rparr>)"
    by simp
  from h 1 2 show ?thesis
    by blast
qed

text \<open>
  C3, as the claim states it, fails for both behaviours of \<open>unsupported_feature\<close>. The
  payload is the one that a first call of \<open>set_html_body\<close> leaves. When
  \<open>unsupported_feature\<close> raises, the second call raises; when it returns, the \<open>html\<close>
  field holds the value of the second call, not of the first.
\<close>

theorem set_html_body_twice_counterexample:
  "snd (set_html_body (\<lambda>feature. None) init_payload (PStr ''<p>one</p>''))
     = init_payload\<lparr>data := [''html'' \<mapsto> PStr ''<p>one</p>'']\<rparr>
   \<and> fst (set_html_body (\<lambda>feature. Some (AnymailUnsupportedFeature feature))
          (init_payload\<lparr>data := [''html'' \<mapsto> PStr ''<p>one</p>'']\<rparr>) (PStr ''<p>two</p>''))
       = Some (AnymailUnsupportedFeature ''multiple html parts'')
   \<and> data (snd (set_html_body (\<lambda>feature. None)
          (init_payload\<lparr>data := [''html'' \<mapsto> PStr ''<p>one</p>'']\<rparr>) (PStr ''<p>two</p>'')))
        ''html'' \<noteq> Some (PStr ''<p>one</p>'')"
  by (simp add: set_html_body_def init_payload_def)

section \<open>The sender domain\<close>



lemma split_not_Nil: "split s sep \<noteq> []"
  by (induction s) (auto split: list.splits)

lemma length_split: "length (split s sep) = Suc (count_list s sep)"
  by (induction s) (auto split: list.splits simp: split_not_Nil)

lemma unpack2_Inr_length: "unpack2 xs = Inr r \<Longrightarrow> length xs = 2"
  by (cases xs rule: unpack2.cases) auto



text \<open>
  C9. The stringified address is stored under \<open>from\<close> in every case. On a payload whose
  sender domain is unset, a from address whose number of \<open>@\<close> characters is not one
  (more than one, or none) changes nothing else: the sender domain stays unset, and the
  setter returns normally.
\<close>

theorem set_from_email_not_one_at:
  "data (set_from_email p e) ''from'' = Some (PStr (address e))
   \<and> (sender_domain p = PNone \<and> count_list (email e) (CHR ''@'') \<noteq> 1 \<longrightarrow>
        set_from_email p e = p\<lparr>data := (data p)(''from'' \<mapsto> PStr (address e))\<rparr>
      \<and> sender_domain (set_from_email p e) = PNone)"
proof -
  have "unpack2 (split (email e) (CHR ''@'')) = Inl ValueError"
    if "count_list (email e) (CHR ''@'') \<noteq> 1"
  proof (cases "unpack2 (split (email e) (CHR ''@''))")
    case (Inl err)
    then show ?thesis
      by (cases "split (email e) (CHR ''@'')" rule: unpack2.cases) auto
  next
    case (Inr r)
    from unpack2_Inr_length [OF Inr] that show ?thesis
      by (simp add: length_split)
  qed
  then show ?thesis
    by (auto simp: set_from_email_def Let_def split: sum.splits)
qed

theorem set_from_email_not_one_at_witness:
  "sender_domain init_payload = PNone
   \<and> count_list (email \<lparr>address = ''a@b@c.com'', email = ''a@b@c.com''\<rparr>) (CHR ''@'') \<noteq> 1
   \<and> set_from_email init_payload \<lparr>address = ''a@b@c.com'', email = ''a@b@c.com''\<rparr>
       = init_payload\<lparr>data := [''from'' \<mapsto> PStr ''a@b@c.com'']\<rparr>
   \<and> sender_domain (set_from_email init_payload
         \<lparr>address = ''a@b@c.com'', email = ''a@b@c.com''\<rparr>) = PNone"
proof -
  have h: "sender_domain init_payload = PNone"
    by (simp add: init_payload_def)
  have c: "count_list (email \<lparr>address = ''a@b@c.com'', email = ''a@b@c.com''\<rparr>) (CHR ''@'') \<noteq> 1"
    by simp
  from set_from_email_not_one_at
         [of init_payload "\<lparr>address = ''a@b@c.com'', email = ''a@b@c.com''\<rparr>"] h c
  have "set_from_email init_payload \<lparr>address = ''a@b@c.com'', email = ''a@b@c.com''\<rparr>
          = init_payload\<lparr>data := (data init_payload)(''from'' \<mapsto> PStr ''a@b@c.com'')\<rparr>
        \<and> sender_domain (set_from_email init_payload
             \<lparr>address = ''a@b@c.com'', email = ''a@b@c.com''\<rparr>) = PNone"
    by simp
  with h c show ?thesis by (simp add: init_payload_def)
qed

section \<open>The \<open>esp_extra\<close> overrides\<close>

text \<open>
  No setter stores a field named \<open>sender_domain\<close>: the field names are fixed words, a
  recipient type, or carry the prefix \<open>h:\<close> or \<open>v:\<close>, and \<open>set_esp_extra\<close> removes the key.
  So no payload that the setters build has the field.
\<close>

lemma fold_prefixed_other:
  "\<forall>key \<in> fst ` set items. f \<noteq> pre @ key \<Longrightarrow>
     fold (\<lambda>(key, v) m. m(pre @ key \<mapsto> g key v)) items d f = d f"
  by (induction items arbitrary: d) auto

lemma set_metadata_other_field:
  "set_metadata dumps p metadata = Inr p' \<Longrightarrow>
     \<forall>key \<in> fst ` set metadata. f \<noteq> ''v:'' @ key \<Longrightarrow> data p' f = data p f"
  by (induction dumps p metadata rule: set_metadata.induct)
     (auto split: sum.splits)

lemma built_no_sender_domain_field: "built p \<Longrightarrow> data p ''sender_domain'' = None"
proof (induction rule: built.induct)
  case (built_extra_headers p headers)
  have "fold (\<lambda>(key, v) m. m(''h:'' @ key \<mapsto> v)) headers (data p) ''sender_domain''
          = data p ''sender_domain''"
    by (rule fold_prefixed_other [where g = "\<lambda>key v. v"]) simp
  with built_extra_headers show ?case
    by (simp add: set_extra_headers_def)
next
  case (built_metadata p dumps metadata p')
  from set_metadata_other_field [OF built_metadata.hyps(2), of "''sender_domain''"]
  have "data p' ''sender_domain'' = data p ''sender_domain''"
    by simp
  with built_metadata show ?case by simp
qed (auto simp: init_payload_def set_from_email_def set_recipients_def set_subject_def
       set_reply_to_def set_text_body_def set_html_body_def
       add_attachment_def set_send_at_def set_tags_def set_track_clicks_def
       set_track_opens_def set_esp_extra_def Let_def
     split: if_splits sum.splits option.splits)

text \<open>
  C6. When \<open>esp_extra\<close> has the key \<open>sender_domain\<close>, applying \<open>set_esp_extra\<close> after
  \<open>set_from_email\<close> makes the key's value the sender domain (for a string \<open>d\<close> the
  endpoint is then \<open>d/messages\<close>), stores every other entry of the mapping in the field
  map in place of whatever was there, keeps the remaining fields, and leaves no field
  named \<open>sender_domain\<close> in the field map.
\<close>

theorem set_esp_extra_overrides:
  assumes "dict_of extra ''sender_domain'' = Some v"
  shows "sender_domain (set_esp_extra (set_from_email p e) extra) = v
       \<and> (\<forall>d. v = PStr d \<longrightarrow>
            get_api_endpoint py_str (set_esp_extra (set_from_email p e) extra)
              = Inr (d @ ''/messages''))
       \<and> data (set_esp_extra (set_from_email p e) extra)
           = (data (set_from_email p e) ++ dict_of extra)(''sender_domain'' := None)
       \<and> data (set_esp_extra (set_from_email p e) extra) ''sender_domain'' = None"
  using assms
  by (simp add: set_esp_extra_def Let_def dict_update_dict_of get_api_endpoint_def)

theorem set_esp_extra_overrides_witness:
  "dict_of [(''o:testmode'', PStr ''yes''), (''sender_domain'', PStr ''override.com''),
            (''from'', PStr ''x@y.org'')] ''sender_domain'' = Some (PStr ''override.com'')
   \<and> sender_domain (set_esp_extra
         (set_from_email init_payload \<lparr>address = ''a@example.com'', email = ''a@example.com''\<rparr>)
         [(''o:testmode'', PStr ''yes''), (''sender_domain'', PStr ''override.com''),
          (''from'', PStr ''x@y.org'')]) = PStr ''override.com''
   \<and> get_api_endpoint (\<lambda>v. ''?'') (set_esp_extra
         (set_from_email init_payload \<lparr>address = ''a@example.com'', email = ''a@example.com''\<rparr>)
         [(''o:testmode'', PStr ''yes''), (''sender_domain'', PStr ''override.com''),
          (''from'', PStr ''x@y.org'')]) = Inr ''override.com/messages''
   \<and> data (set_esp_extra
         (set_from_email init_payload \<lparr>address = ''a@example.com'', email = ''a@example.com''\<rparr>)
         [(''o:testmode'', PStr ''yes''), (''sender_domain'', PStr ''override.com''),
          (''from'', PStr ''x@y.org'')])
       = [''from'' \<mapsto> PStr ''x@y.org'', ''o:testmode'' \<mapsto> PStr ''yes'']"
proof -
  let ?extra = "[(''o:testmode'', PStr ''yes''), (''sender_domain'', PStr ''override.com''),
                 (''from'', PStr ''x@y.org'')]"
  let ?e = "\<lparr>address = ''a@example.com'', email = ''a@example.com''\<rparr>"
  have h: "dict_of ?extra ''sender_domain'' = Some (PStr ''override.com'')"
    by (simp add: dict_of_def dict_update_def)
  have m: "(data (set_from_email init_payload ?e) ++ dict_of ?extra)(''sender_domain'' := None)
             = [''from'' \<mapsto> PStr ''x@y.org'', ''o:testmode'' \<mapsto> PStr ''yes'']"
    by (rule ext)
       (simp add: set_from_email_def init_payload_def dict_of_def dict_update_def map_add_def)
  from set_esp_extra_overrides [OF h, of init_payload ?e "\<lambda>v. ''?''"] h m
  show ?thesis by simp
qed

text \<open>
  C10. When \<open>esp_extra\<close> has no key \<open>sender_domain\<close>, \<open>set_esp_extra\<close> leaves the sender
  domain as it was and stores all entries of the mapping in the field map, keeping the
  other fields. The payload is one without a field named \<open>sender_domain\<close>, as every
  payload built by the setters is.
\<close>

theorem set_esp_extra_keeps_sender_domain:
  assumes "''sender_domain'' \<notin> fst ` set extra"
    and "data p ''sender_domain'' = None"
  shows "sender_domain (set_esp_extra p extra) = sender_domain p
       \<and> data (set_esp_extra p extra) = data p ++ dict_of extra
       \<and> (\<forall>k v. dict_of extra k = Some v \<longrightarrow> data (set_esp_extra p extra) k = Some v)"
proof -
  from assms(1) have n: "dict_of extra ''sender_domain'' = None"
    using dom_dict_of [of extra] by blast
  with assms(2) have d: "(data p ++ dict_of extra) ''sender_domain'' = None"
    by (simp add: map_add_def)
  then have u: "(data p ++ dict_of extra)(''sender_domain'' := None) = data p ++ dict_of extra"
    by (simp add: fun_upd_idem)
  show ?thesis
    by (simp add: set_esp_extra_def Let_def dict_update_dict_of d u)
qed

theorem set_esp_extra_keeps_sender_domain_witness:
  "''sender_domain'' \<notin> fst ` set [(''o:testmode'', PStr ''yes''), (''from'', PStr ''x@y.org'')]
   \<and> data (set_from_email init_payload \<lparr>address = ''a@example.com'', email = ''a@example.com''\<rparr>)
        ''sender_domain'' = None
   \<and> sender_domain (set_esp_extra
         (set_from_email init_payload \<lparr>address = ''a@example.com'', email = ''a@example.com''\<rparr>)
         [(''o:testmode'', PStr ''yes''), (''from'', PStr ''x@y.org'')]) = PStr ''example.com''
   \<and> data (set_esp_extra
         (set_from_email init_payload \<lparr>address = ''a@example.com'', email = ''a@example.com''\<rparr>)
         [(''o:testmode'', PStr ''yes''), (''from'', PStr ''x@y.org'')])
       = [''from'' \<mapsto> PStr ''x@y.org'', ''o:testmode'' \<mapsto> PStr ''yes'']"
proof -
  let ?extra = "[(''o:testmode'', PStr ''yes''), (''from'', PStr ''x@y.org'')]"
  let ?p = "set_from_email init_payload \<lparr>address = ''a@example.com'', email = ''a@example.com''\<rparr>"
  have h1: "''sender_domain'' \<notin> fst ` set ?extra"
    by simp
  have h2: "data ?p ''sender_domain'' = None"
    by (simp add: set_from_email_def init_payload_def)
  have s: "sender_domain ?p = PStr ''example.com''"
    by (simp add: set_from_email_def init_payload_def)
  have m: "data ?p ++ dict_of ?extra
             = [''from'' \<mapsto> PStr ''x@y.org'', ''o:testmode'' \<mapsto> PStr ''yes'']"
    by (rule ext)
       (simp add: set_from_email_def init_payload_def dict_of_def dict_update_def map_add_def)
  from set_esp_extra_keeps_sender_domain [OF h1 h2] h1 h2 s m
  show ?thesis by simp
qed

section \<open>Recipients\<close>

lemma set_recipients_calls_returns:
  "\<forall>(recipient_type, emails) \<in> set calls. recipient_type \<in> {''to'', ''cc'', ''bcc''} \<Longrightarrow>
     \<exists>p'. set_recipients_calls p calls = Inr p'"
  by (induction calls arbitrary: p) (auto simp: set_recipients_def)

lemma set_recipients_calls_all_recipients:
  "set_recipients_calls p calls = Inr p' \<Longrightarrow>
     all_recipients p' = all_recipients p @ concat (map snd calls)"
  by (induction calls arbitrary: p)
     (auto simp: set_recipients_def split: if_splits sum.splits)

lemma set_recipients_calls_other_field:
  "set_recipients_calls p calls = Inr p' \<Longrightarrow> f \<notin> fst ` set calls \<Longrightarrow> data p' f = data p f"
  by (induction calls arbitrary: p)
     (auto simp: set_recipients_def split: if_splits sum.splits)

lemma set_recipients_calls_field:
  "set_recipients_calls p calls = Inr p' \<Longrightarrow> distinct (map fst calls) \<Longrightarrow>
   (recipient_type, emails) \<in> set calls \<Longrightarrow> emails \<noteq> [] \<Longrightarrow>
     data p' recipient_type = Some (PList (map (\<lambda>e. PStr (address e)) emails))"
proof (induction calls arbitrary: p)
  case Nil
  then show ?case by simp
next
  case (Cons call calls)
  obtain t es where call: "call = (t, es)"
    by (cases call)
  from Cons.prems(1) call obtain p1
    where p1: "set_recipients p t es = Inr p1" and rest: "set_recipients_calls p1 calls = Inr p'"
    by (auto split: sum.splits)
  show ?case
  proof (cases "(recipient_type, emails) = (t, es)")
    case True
    with Cons.prems(2) call have "recipient_type \<notin> fst ` set calls"
      by simp
    from set_recipients_calls_other_field [OF rest this]
    have "data p' recipient_type = data p1 recipient_type" .
    also from p1 True Cons.prems(4)
    have "data p1 recipient_type = Some (PList (map (\<lambda>e. PStr (address e)) emails))"
      by (auto simp: set_recipients_def split: if_splits)
    finally show ?thesis .
  next
    case False
    with Cons.prems(3) call have "(recipient_type, emails) \<in> set calls"
      by auto
    moreover from Cons.prems(2) have "distinct (map fst calls)"
      by simp
    ultimately show ?thesis
      using Cons.IH [OF rest] Cons.prems(4) by blast
  qed
qed

text \<open>
  C8. For every run of \<open>set_recipients\<close> calls whose recipient types are among \<open>to\<close>,
  \<open>cc\<close> and \<open>bcc\<close>, no call raises, and \<open>all_recipients\<close> afterwards is what it was
  before followed by the addresses of the calls in order: as a multiset, exactly the
  addresses passed, each as often as it was passed. When each recipient type is used by
  at most one call, every non-empty list is stored, stringified, under the field named by
  its recipient type.
\<close>

theorem set_recipients_calls_accumulate:
  assumes "\<forall>(recipient_type, emails) \<in> set calls. recipient_type \<in> {''to'', ''cc'', ''bcc''}"
  shows "\<exists>p'. set_recipients_calls p calls = Inr p'
           \<and> all_recipients p' = all_recipients p @ concat (map snd calls)
           \<and> mset (all_recipients p') = mset (all_recipients p) + mset (concat (map snd calls))
           \<and> (distinct (map fst calls) \<longrightarrow>
                (\<forall>(recipient_type, emails) \<in> set calls. emails \<noteq> [] \<longrightarrow>
                   data p' recipient_type = Some (PList (map (\<lambda>e. PStr (address e)) emails))))"
proof -
  from set_recipients_calls_returns [OF assms] obtain p'
    where r: "set_recipients_calls p calls = Inr p'"
    by blast
  from set_recipients_calls_all_recipients [OF r]
  have a: "all_recipients p' = all_recipients p @ concat (map snd calls)" .
  then have m: "mset (all_recipients p') = mset (all_recipients p) + mset (concat (map snd calls))"
    by simp
  have "data p' recipient_type = Some (PList (map (\<lambda>e. PStr (address e)) emails))"
    if "distinct (map fst calls)" "(recipient_type, emails) \<in> set calls" "emails \<noteq> []"
    for recipient_type emails
    using set_recipients_calls_field [OF r that] .
  with r a m show ?thesis
    by blast
qed

theorem set_recipients_calls_accumulate_witness:
  "set (map fst
       [(''to'', [\<lparr>address = ''A <a@x.com>'', email = ''a@x.com''\<rparr>,
                 \<lparr>address = ''b@x.com'', email = ''b@x.com''\<rparr>]),
        (''cc'', [\<lparr>address = ''c@y.org'', email = ''c@y.org''\<rparr>]),
        (''bcc'', [\<lparr>address = ''b@x.com'', email = ''b@x.com''\<rparr>])])
     = {''to'', ''cc'', ''bcc''}
   \<and> (\<exists>p'. set_recipients_calls init_payload
       [(''to'', [\<lparr>address = ''A <a@x.com>'', email = ''a@x.com''\<rparr>,
                 \<lparr>address = ''b@x.com'', email = ''b@x.com''\<rparr>]),
        (''cc'', [\<lparr>address = ''c@y.org'', email = ''c@y.org''\<rparr>]),
        (''bcc'', [\<lparr>address = ''b@x.com'', email = ''b@x.com''\<rparr>])] = Inr p'
      \<and> all_recipients p' =
          [\<lparr>address = ''A <a@x.com>'', email = ''a@x.com''\<rparr>,
           \<lparr>address = ''b@x.com'', email = ''b@x.com''\<rparr>,
           \<lparr>address = ''c@y.org'', email = ''c@y.org''\<rparr>,
           \<lparr>address = ''b@x.com'', email = ''b@x.com''\<rparr>]
      \<and> data p' ''to'' = Some (PList [PStr ''A <a@x.com>'', PStr ''b@x.com''])
      \<and> data p' ''cc'' = Some (PList [PStr ''c@y.org''])
      \<and> data p' ''bcc'' = Some (PList [PStr ''b@x.com'']))"
proof -
  let ?calls = "[(''to'', [\<lparr>address = ''A <a@x.com>'', email = ''a@x.com''\<rparr>,
                 \<lparr>address = ''b@x.com'', email = ''b@x.com''\<rparr>]),
        (''cc'', [\<lparr>address = ''c@y.org'', email = ''c@y.org''\<rparr>]),
        (''bcc'', [\<lparr>address = ''b@x.com'', email = ''b@x.com''\<rparr>])]"
  have h: "\<forall>(recipient_type, emails) \<in> set ?calls. recipient_type \<in> {''to'', ''cc'', ''bcc''}"
    by simp
  from set_recipients_calls_accumulate [OF h, of init_payload] obtain p'
    where r: "set_recipients_calls init_payload ?calls = Inr p'"
      and a: "all_recipients p' = all_recipients init_payload @ concat (map snd ?calls)"
      and d: "distinct (map fst ?calls) \<longrightarrow>
                (\<forall>(recipient_type, emails) \<in> set ?calls. emails \<noteq> [] \<longrightarrow>
                   data p' recipient_type = Some (PList (map (\<lambda>e. PStr (address e)) emails)))"
    by blast
  from a have a': "all_recipients p' =
          [\<lparr>address = ''A <a@x.com>'', email = ''a@x.com''\<rparr>,
           \<lparr>address = ''b@x.com'', email = ''b@x.com''\<rparr>,
           \<lparr>address = ''c@y.org'', email = ''c@y.org''\<rparr>,
           \<lparr>address = ''b@x.com'', email = ''b@x.com''\<rparr>]"
    by (simp add: init_payload_def)
  from d have f: "data p' ''to'' = Some (PList [PStr ''A <a@x.com>'', PStr ''b@x.com''])
      \<and> data p' ''cc'' = Some (PList [PStr ''c@y.org''])
      \<and> data p' ''bcc'' = Some (PList [PStr ''b@x.com''])"
    by simp
  have t: "set (map fst ?calls) = {''to'', ''cc'', ''bcc''}"
    by simp
  from t r a' f show ?thesis
    by blast
qed

section \<open>Metadata\<close>

lemma dict_of_Cons: "dict_of ((key, v) # items) = [key \<mapsto> v] ++ dict_of items"
  by (simp add: dict_of_def dict_update_append)

lemma set_metadata_returns:
  "\<forall>(key, v) \<in> set metadata. dumps v \<noteq> None \<Longrightarrow> \<exists>p'. set_metadata dumps p metadata = Inr p'"
  by (induction dumps p metadata rule: set_metadata.induct)
     (auto simp: serialize_json_def)

lemma set_metadata_raises:
  "\<exists>(key, v) \<in> set metadata. dumps v = None \<Longrightarrow>
     set_metadata dumps p metadata = Inl AnymailSerializationError"
  by (induction metadata arbitrary: p)
     (fastforce simp: serialize_json_def split: option.splits)+

lemma set_metadata_field:
  "set_metadata dumps p metadata = Inr p' \<Longrightarrow> dict_of metadata key = Some v \<Longrightarrow>
   dumps v = Some j \<Longrightarrow>
     data p' (''v:'' @ key) = Some (if startswith j [CHR 0x22] then v else PStr j)"
proof (induction dumps p metadata rule: set_metadata.induct)
  case (1 dumps p)
  then show ?case by (simp add: dict_of_def dict_update_def)
next
  case (2 dumps p key0 v0 rest)
  from "2.prems"(1) obtain j0
    where j0: "serialize_json dumps v0 = Inr j0"
      and rest: "set_metadata dumps
                   (p\<lparr>data := (data p)(''v:'' @ key0 \<mapsto>
                        (if startswith j0 [CHR 0x22] then v0 else PStr j0))\<rparr>) rest = Inr p'"
    by (auto split: sum.splits)
  show ?case
  proof (cases "dict_of rest key")
    case (Some w)
    with "2.prems"(2) have "dict_of rest key = Some v"
      by (simp add: dict_of_Cons map_add_def)
    from "2.IH" [OF j0 rest this "2.prems"(3)] show ?thesis .
  next
    case None
    with "2.prems"(2) have same: "key = key0" "v = v0"
      by (auto simp: dict_of_Cons map_add_def split: if_splits)
    from None have "key \<notin> fst ` set rest"
      using dom_dict_of [of rest] by blast
    then have "\<forall>k \<in> fst ` set rest. ''v:'' @ key \<noteq> ''v:'' @ k"
      by auto
    from set_metadata_other_field [OF rest this]
    have "data p' (''v:'' @ key) = Some (if startswith j0 [CHR 0x22] then v0 else PStr j0)"
      using same by simp
    moreover from j0 "2.prems"(3) same have "j0 = j"
      by (simp add: serialize_json_def)
    ultimately show ?thesis
      using same by simp
  qed
qed

text \<open>
  C7. Let the JSON encoder give a text that starts with a double quote for a string and
  for nothing else. When every metadata value is serializable, \<open>set_metadata\<close> returns,
  and for each key the field \<open>v:key\<close> holds the value itself if the value is a string and
  the JSON text of the value otherwise; the fields without such a name are untouched.
  When some value is not serializable, \<open>set_metadata\<close> raises the serialization error and
  returns no payload.
\<close>

theorem set_metadata_values:
  assumes "\<forall>v j. dumps v = Some j \<longrightarrow> (startswith j [CHR 0x22] \<longleftrightarrow> (\<exists>s. v = PStr s))"
  shows "((\<forall>(key, v) \<in> set metadata. dumps v \<noteq> None) \<longrightarrow>
            (\<exists>p'. set_metadata dumps p metadata = Inr p'
               \<and> (\<forall>key v j. dict_of metadata key = Some v \<and> dumps v = Some j \<longrightarrow>
                     data p' (''v:'' @ key) = Some (case v of PStr s \<Rightarrow> PStr s | _ \<Rightarrow> PStr j))
               \<and> (\<forall>f. (\<forall>key \<in> fst ` set metadata. f \<noteq> ''v:'' @ key) \<longrightarrow>
                     data p' f = data p f)))
       \<and> ((\<exists>(key, v) \<in> set metadata. dumps v = None) \<longrightarrow>
            set_metadata dumps p metadata = Inl AnymailSerializationError)"
proof (intro conjI impI)
  assume "\<forall>(key, v) \<in> set metadata. dumps v \<noteq> None"
  from set_metadata_returns [OF this] obtain p'
    where r: "set_metadata dumps p metadata = Inr p'"
    by blast
  have "data p' (''v:'' @ key) = Some (case v of PStr s \<Rightarrow> PStr s | _ \<Rightarrow> PStr j)"
    if "dict_of metadata key = Some v" "dumps v = Some j" for key v j
  proof -
    from assms that(2) have q: "startswith j [CHR 0x22] \<longleftrightarrow> (\<exists>s. v = PStr s)"
      by blast
    from set_metadata_field [OF r that] q show ?thesis
      by (cases v) auto
  qed
  moreover have "data p' f = data p f"
    if "\<forall>key \<in> fst ` set metadata. f \<noteq> ''v:'' @ key" for f
    using set_metadata_other_field [OF r that] .
  ultimately show "\<exists>p'. set_metadata dumps p metadata = Inr p'
               \<and> (\<forall>key v j. dict_of metadata key = Some v \<and> dumps v = Some j \<longrightarrow>
                     data p' (''v:'' @ key) = Some (case v of PStr s \<Rightarrow> PStr s | _ \<Rightarrow> PStr j))
               \<and> (\<forall>f. (\<forall>key \<in> fst ` set metadata. f \<noteq> ''v:'' @ key) \<longrightarrow>
                     data p' f = data p f)"
    using r by blast
next
  assume "\<exists>(key, v) \<in> set metadata. dumps v = None"
  from set_metadata_raises [OF this]
  show "set_metadata dumps p metadata = Inl AnymailSerializationError" .
qed

text \<open>The encoder \<open>json_encode\<close> starts its text with a double quote for strings only.\<close>

lemma decimal_first: "\<exists>c cs. decimal n = c # cs \<and> c \<in> set ''0123456789''"
proof (induction n rule: decimal.induct)
  case (1 n)
  show ?case
  proof (cases "n < 10")
    case True
    then have "''0123456789'' ! n \<in> set ''0123456789''"
      by (intro nth_mem) simp
    with True show ?thesis
      by (subst decimal.simps) simp
  next
    case False
    with 1 obtain c cs where "decimal (n div 10) = c # cs" "c \<in> set ''0123456789''"
      by blast
    with False show ?thesis
      by (subst decimal.simps) simp
  qed
qed

lemma json_encode_quote:
  "json_encode v = Some j \<Longrightarrow> (startswith j [CHR 0x22] \<longleftrightarrow> (\<exists>s. v = PStr s))"
proof (cases v)
  case (PInt i)
  assume j: "json_encode v = Some j"
  obtain c cs where c: "decimal (nat (- i)) = c # cs" "c \<in> set ''0123456789''"
    using decimal_first by blast
  obtain c' cs' where c': "decimal (nat i) = c' # cs'" "c' \<in> set ''0123456789''"
    using decimal_first by blast
  from j PInt c c' show ?thesis
    by (auto simp: startswith_def split: if_splits)
qed (auto simp: startswith_def quoted_def split: option.splits if_splits)

theorem set_metadata_values_witness:
  "(\<exists>p'. set_metadata json_encode init_payload
         [(''name'', PStr ''hello''), (''count'', PInt 42), (''obj'', PDict [(''a'', PInt 1)])]
         = Inr p'
       \<and> data p' ''v:name'' = Some (PStr ''hello'')
       \<and> data p' ''v:count'' = Some (PStr ''42'')
       \<and> data p' ''v:obj'' = Some (PStr (''{'' @ [CHR 0x22] @ ''a'' @ [CHR 0x22] @ '': 1}'')))
   \<and> set_metadata json_encode init_payload [(''name'', PStr ''hello''), (''bad'', PObj 0)]
       = Inl AnymailSerializationError"
proof -
  let ?md = "[(''name'', PStr ''hello''), (''count'', PInt 42), (''obj'', PDict [(''a'', PInt 1)])]"
  let ?bad = "[(''name'', PStr ''hello''), (''bad'', PObj 0)]"
  have h: "\<forall>v j. json_encode v = Some j \<longrightarrow> (startswith j [CHR 0x22] \<longleftrightarrow> (\<exists>s. v = PStr s))"
    using json_encode_quote by blast
  have ok: "\<forall>(key, v) \<in> set ?md. json_encode v \<noteq> None"
    by simp
  have bad: "\<exists>(key, v) \<in> set ?bad. json_encode v = None"
    by simp
  from set_metadata_values [OF h, of ?md init_payload] ok obtain p'
    where r: "set_metadata json_encode init_payload ?md = Inr p'"
      and f: "\<forall>key v j. dict_of ?md key = Some v \<and> json_encode v = Some j \<longrightarrow>
                 data p' (''v:'' @ key) = Some (case v of PStr s \<Rightarrow> PStr s | _ \<Rightarrow> PStr j)"
    by blast
  have d42: "decimal 42 = ''42''"
    by (simp add: decimal.simps)
  have d1: "decimal (Suc 0) = ''1''"
    by (subst decimal.simps) simp
  have "dict_of ?md ''name'' = Some (PStr ''hello'') \<and> json_encode (PStr ''hello'') = Some (quoted ''hello'')"
    by (simp add: dict_of_def dict_update_def)
  with f have 1: "data p' (''v:'' @ ''name'') = Some (PStr ''hello'')"
    by fastforce
  have "dict_of ?md ''count'' = Some (PInt 42) \<and> json_encode (PInt 42) = Some ''42''"
    by (simp add: dict_of_def dict_update_def d42)
  with f have 2: "data p' (''v:'' @ ''count'') = Some (PStr ''42'')"
    by fastforce
  have "dict_of ?md ''obj'' = Some (PDict [(''a'', PInt 1)])
        \<and> json_encode (PDict [(''a'', PInt 1)])
            = Some (''{'' @ [CHR 0x22] @ ''a'' @ [CHR 0x22] @ '': 1}'')"
    by (simp add: dict_of_def dict_update_def d1 quoted_def)
  with f have 3: "data p' (''v:'' @ ''obj'')
                    = Some (PStr (''{'' @ [CHR 0x22] @ ''a'' @ [CHR 0x22] @ '': 1}''))"
    by fastforce
  from set_metadata_values [OF h, of ?bad init_payload] bad
  have 4: "set_metadata json_encode init_payload ?bad = Inl AnymailSerializationError"
    by blast
  from 1 2 3 have 5: "data p' ''v:name'' = Some (PStr ''hello'')
       \<and> data p' ''v:count'' = Some (PStr ''42'')
       \<and> data p' ''v:obj'' = Some (PStr (''{'' @ [CHR 0x22] @ ''a'' @ [CHR 0x22] @ '': 1}''))"
    by simp
  from r 5 4 show ?thesis
    by blast
qed

end
